theory Spec2Isabelle
  imports Complex_Main
begin

section \<open>Strings as Python reads them\<close>

text \<open>
  A Python \<open>str\<close> is modelled as a \<open>string\<close> whose characters are the code points
  0..255. \<open>is_space\<close> is \<open>str.isspace\<close> on that range.
\<close>

definition is_space :: "char \<Rightarrow> bool" where
  "is_space c =
     (let k = (of_char c :: nat)
      in (9 \<le> k \<and> k \<le> 13) \<or> (28 \<le> k \<and> k \<le> 32) \<or> k = 133 \<or> k = 160)"

definition strip :: "string \<Rightarrow> string" where
  "strip s = rev (dropWhile is_space (rev (dropWhile is_space s)))"

definition startswith :: "string \<Rightarrow> string \<Rightarrow> bool" where
  "startswith s p = (take (length p) s = p)"

text \<open>\<open>str_in p s\<close> is Python's \<open>p in s\<close> on strings: \<open>p\<close> occurs in \<open>s\<close> as a
  contiguous substring.\<close>

fun str_in :: "string \<Rightarrow> string \<Rightarrow> bool" where
  "str_in p [] = (p = [])"
| "str_in p (c # cs) = (startswith (c # cs) p \<or> str_in p cs)"

definition lower_char :: "char \<Rightarrow> char" where
  "lower_char c =
     (let k = (of_char c :: nat)
      in if (65 \<le> k \<and> k \<le> 90) \<or> (192 \<le> k \<and> k \<le> 222 \<and> k \<noteq> 215)
         then char_of (k + 32) else c)"

definition lower :: "string \<Rightarrow> string" where
  "lower s = map lower_char s"

text \<open>\<open>split sep s\<close> is \<open>s.split(sep)\<close> for a one-character separator: it always
  returns at least one piece.\<close>

fun split :: "char \<Rightarrow> string \<Rightarrow> string list" where
  "split sep [] = [[]]"
| "split sep (c # cs) =
     (if c = sep then [] # split sep cs
      else (case split sep cs of
              [] \<Rightarrow> [[c]]
            | w # ws \<Rightarrow> (c # w) # ws))"

section \<open>The syntax tree\<close>

text \<open>
  The trees are those of Python's \<open>ast\<close> module. Each constructor stands for one node class
  and lists the child nodes in the order of the class's \<open>_fields\<close>, which is the order in
  which \<open>generic_visit\<close> walks them. Node classes for which neither analyzer defines a
  \<open>visit_\<close> method are \<open>Other\<close>, with all their child nodes in field order.
  \<^item> \<open>Module body\<close>
  \<^item> \<open>Import names lineno\<close> and \<open>ImportFrom module names lineno\<close>, where \<open>names\<close> are the
    \<open>alias.name\<close> strings (an \<open>alias\<close> node has no child nodes)
  \<^item> \<open>FunctionDef name children\<close> and \<open>ClassDef name children\<close>
  \<^item> \<open>If test body orelse\<close>, \<open>While test body orelse\<close>, \<open>For target iter body orelse\<close>
  \<^item> \<open>Try body handlers orelse finalbody\<close>
  \<^item> \<open>BoolOp values\<close>
  \<^item> \<open>Call func args keywords lineno\<close>
  \<^item> \<open>Name id\<close>, \<open>Attribute value attr\<close>, \<open>BinOp left op right\<close>
  \<^item> \<open>Str s lineno\<close>
\<close>

datatype operator = Add | Mod | OtherOperator

datatype node =
    Module "node list"
  | Import "string list" int
  | ImportFrom string "string list" int
  | FunctionDef string "node list"
  | ClassDef string "node list"
  | If node "node list" "node list"
  | While node "node list" "node list"
  | For node node "node list" "node list"
  | Try "node list" "node list" "node list" "node list"
  | BoolOp "node list"
  | Call node "node list" "node list" int
  | Name string
  | Attribute node string
  | BinOp node operator node
  | Str string int
  | Other "node list"

section \<open>complexity\_analyzer.py\<close>

record ComplexityMetrics =
  cyclomatic_complexity :: int
  cognitive_complexity :: int
  halstead_volume :: real
  maintainability_index :: real
  lines_of_code :: int
  num_functions :: int
  num_classes :: int

definition get_complexity_rating :: "ComplexityMetrics \<Rightarrow> string" where
  "get_complexity_rating m =
     (if cyclomatic_complexity m \<le> 10 then ''Low''
      else if cyclomatic_complexity m \<le> 20 then ''Moderate''
      else if cyclomatic_complexity m \<le> 50 then ''High''
      else ''Very High'')"

text \<open>The attributes of a \<open>ComplexityAnalyzer\<close> instance. The attribute
  \<open>cognitive_complexity\<close> is the field \<open>cognitive\<close> here, since the metrics record already
  has a field of that name; the attributes \<open>functions\<close> and \<open>classes\<close> are
  \<open>functions_list\<close> and \<open>classes_list\<close>.\<close>

record ComplexityAnalyzer =
  complexity :: int
  cognitive :: int
  nesting_level :: int
  halstead_operators :: "string list"
  halstead_operands :: "string list"
  functions_list :: "string list"
  classes_list :: "string list"

definition ComplexityAnalyzer_init :: ComplexityAnalyzer where
  "ComplexityAnalyzer_init =
     \<lparr> complexity = 1, cognitive = 0, nesting_level = 0,
       halstead_operators = [], halstead_operands = [],
       functions_list = [], classes_list = [] \<rparr>"

text \<open>The first steps of \<open>visit_If\<close>, \<open>visit_While\<close> and \<open>visit_For\<close>, up to the call of
  \<open>generic_visit\<close>, are the same three assignments.\<close>

definition enter_branch :: "ComplexityAnalyzer \<Rightarrow> ComplexityAnalyzer" where
  "enter_branch self =
     (let self = self\<lparr>complexity := complexity self + 1\<rparr>;
          self = self\<lparr>cognitive := cognitive self + (1 + nesting_level self)\<rparr>
      in self\<lparr>nesting_level := nesting_level self + 1\<rparr>)"

definition enter_try :: "node list \<Rightarrow> node list \<Rightarrow> node list \<Rightarrow> ComplexityAnalyzer \<Rightarrow> ComplexityAnalyzer" where
  "enter_try handlers orelse finalbody self =
     (let self = self\<lparr>complexity := complexity self
                     + (int (length handlers) + int (length orelse) + int (length finalbody))\<rparr>;
          self = self\<lparr>cognitive := cognitive self + (1 + nesting_level self)\<rparr>
      in self\<lparr>nesting_level := nesting_level self + 1\<rparr>)"

definition leave_nesting :: "ComplexityAnalyzer \<Rightarrow> ComplexityAnalyzer" where
  "leave_nesting self = self\<lparr>nesting_level := nesting_level self - 1\<rparr>"

text \<open>\<open>complexity_visit\<close> is \<open>ComplexityAnalyzer.visit\<close>: the dispatch on the node class,
  with one equation per \<open>visit_\<close> method and \<open>generic_visit\<close> for every other class.
  \<open>complexity_visit_all\<close> visits a list of child nodes in order.\<close>

fun complexity_visit :: "node \<Rightarrow> ComplexityAnalyzer \<Rightarrow> ComplexityAnalyzer"
  and complexity_visit_all :: "node list \<Rightarrow> ComplexityAnalyzer \<Rightarrow> ComplexityAnalyzer" where
  "complexity_visit (FunctionDef name children) self =
     (let self = self\<lparr>functions_list := functions_list self @ [name]\<rparr>;
          old_complexity = complexity self;
          old_cognitive = cognitive self;
          self = self\<lparr>complexity := 1\<rparr>;
          self = self\<lparr>cognitive := 0\<rparr>;
          self = complexity_visit_all children self;
          func_complexity = complexity self;
          func_cognitive = cognitive self;
          self = self\<lparr>complexity := old_complexity + func_complexity\<rparr>
      in self\<lparr>cognitive := old_cognitive + func_cognitive\<rparr>)"
| "complexity_visit (ClassDef name children) self =
     complexity_visit_all children (self\<lparr>classes_list := classes_list self @ [name]\<rparr>)"
| "complexity_visit (If test body orelse) self =
     leave_nesting
       (complexity_visit_all orelse
         (complexity_visit_all body
           (complexity_visit test (enter_branch self))))"
| "complexity_visit (While test body orelse) self =
     leave_nesting
       (complexity_visit_all orelse
         (complexity_visit_all body
           (complexity_visit test (enter_branch self))))"
| "complexity_visit (For target iter body orelse) self =
     leave_nesting
       (complexity_visit_all orelse
         (complexity_visit_all body
           (complexity_visit iter
             (complexity_visit target (enter_branch self)))))"
| "complexity_visit (Try body handlers orelse finalbody) self =
     leave_nesting
       (complexity_visit_all finalbody
         (complexity_visit_all orelse
           (complexity_visit_all handlers
             (complexity_visit_all body (enter_try handlers orelse finalbody self)))))"
| "complexity_visit (BoolOp values) self =
     (let self = self\<lparr>complexity := complexity self + (int (length values) - 1)\<rparr>;
          self = self\<lparr>cognitive := cognitive self + (int (length values) - 1)\<rparr>
      in complexity_visit_all values self)"
| "complexity_visit (Module body) self = complexity_visit_all body self"
| "complexity_visit (Import names lineno) self = self"
| "complexity_visit (ImportFrom modname names lineno) self = self"
| "complexity_visit (Call func args keywords lineno) self =
     complexity_visit_all keywords (complexity_visit_all args (complexity_visit func self))"
| "complexity_visit (Name ident) self = self"
| "complexity_visit (Attribute val attr) self = complexity_visit val self"
| "complexity_visit (BinOp left op right) self =
     complexity_visit right (complexity_visit left self)"
| "complexity_visit (Str s lineno) self = self"
| "complexity_visit (Other children) self = complexity_visit_all children self"
| "complexity_visit_all [] self = self"
| "complexity_visit_all (n # ns) self = complexity_visit_all ns (complexity_visit n self)"


text \<open>
  \<open>analyze_file_complexity\<close> after the file has been read: \<open>content\<close> is the text of the
  file and \<open>parse\<close> stands for \<open>ast.parse\<close>, with \<open>None\<close> for a \<open>SyntaxError\<close>. Python's
  floats are modelled as real numbers (rounding is not modelled).
\<close>

definition zero_metrics :: ComplexityMetrics where
  "zero_metrics =
     \<lparr> cyclomatic_complexity = 0, cognitive_complexity = 0, halstead_volume = 0,
       maintainability_index = 0, lines_of_code = 0, num_functions = 0, num_classes = 0 \<rparr>"

definition is_code_line :: "string \<Rightarrow> bool" where
  "is_code_line line = (strip line \<noteq> [] \<and> \<not> startswith (strip line) ''#'')"

definition analyze_file_complexity :: "(string \<Rightarrow> node option) \<Rightarrow> string \<Rightarrow> ComplexityMetrics" where
  "analyze_file_complexity parse content =
     (case parse content of
        None \<Rightarrow> zero_metrics
      | Some tree \<Rightarrow>
          (let analyzer = complexity_visit tree ComplexityAnalyzer_init;
               lines = split (CHR 0x0A) content;
               loc = int (length (filter is_code_line lines));
               volume = int (length (halstead_operators analyzer))
                        + int (length (halstead_operands analyzer));
               maintainability =
                 max 0 (171 - 5.2 * real_of_int (complexity analyzer) - 0.23 * real_of_int loc)
           in \<lparr> cyclomatic_complexity = complexity analyzer,
                cognitive_complexity = cognitive analyzer,
                halstead_volume = real_of_int volume,
                maintainability_index = maintainability,
                lines_of_code = loc,
                num_functions = int (length (functions_list analyzer)),
                num_classes = int (length (classes_list analyzer)) \<rparr>))"

section \<open>security\_analyzer.py\<close>

subsection \<open>The module as the interpreter reads it\<close>

text \<open>
  The file does not compile. Lines 135 to 142, inside \<open>visit_Str\<close>, hold the four
  patterns of \<open>credential_patterns\<close>; each is a raw string literal in single quotes that
  is opened on one line and closed on the next:
  \<^verbatim>\<open>            r'password\s*=\s*["\'][^"\'\<close>
  \<^verbatim>\<open>]{3,}["\']',\<close>
  A string literal in single quotes has to end on the line that opens it, so Python raises
  \<open>SyntaxError\<close> (unterminated string literal, line 135) when it compiles the module:
  on \<open>import\<close>, or when the file is run as a script. None of the module's statements
  runs, and none of its classes and functions is ever defined.

  \<open>scan_line\<close> is the tokenizer's rule for one physical line that has no triple quote
  and does not end in a backslash: a quote opens a literal, a backslash inside a literal
  takes the next character with it (also in a raw literal), the same quote closes the
  literal, and \<open>#\<close> outside a literal starts a comment. A line that ends inside a literal
  is \<open>unterminated\<close>.
\<close>

datatype scan = Outside | Inside char

fun scan_line :: "scan \<Rightarrow> string \<Rightarrow> scan" where
  "scan_line st [] = st"
| "scan_line Outside (c # cs) =
     (if c = CHR ''#'' then Outside
      else if c = CHR 0x27 \<or> c = CHR 0x22 then scan_line (Inside c) cs
      else scan_line Outside cs)"
| "scan_line (Inside q) [c] = (if c = q then Outside else Inside q)"
| "scan_line (Inside q) (c # d # cs) =
     (if c = CHR 0x5C then scan_line (Inside q) cs
      else if c = q then scan_line Outside (d # cs)
      else scan_line (Inside q) (d # cs))"

definition unterminated :: "string \<Rightarrow> bool" where
  "unterminated line = (scan_line Outside line \<noteq> Outside)"

text \<open>The text of lines 135, 137, 139 and 141: twelve spaces, \<open>r\<close>, the opening quote,
  the key, and the part of the pattern up to the line break.\<close>

definition literal_line :: "string \<Rightarrow> string" where
  "literal_line key =
     replicate 12 (CHR '' '') @ ''r'' @ [CHR 0x27] @ key
     @ [CHR 0x5C] @ ''s*='' @ [CHR 0x5C] @ ''s*['' @ [CHR 0x22, CHR 0x5C, CHR 0x27]
     @ ''][^'' @ [CHR 0x22, CHR 0x5C, CHR 0x27]"

definition credential_literal_lines :: "string list" where
  "credential_literal_lines =
     [literal_line ''password'', literal_line ''api_key'',
      literal_line ''secret'', literal_line ''token'']"

datatype error = IndexError | SyntaxError

text \<open>Compiling the module, which comes before any call into it.\<close>

definition import_security_analyzer :: "error + unit" where
  "import_security_analyzer =
     (if list_ex unterminated credential_literal_lines then Inl SyntaxError else Inr ())"

subsection \<open>The text of the module\<close>

text \<open>
  The definitions of this subsection follow the text of the classes and functions of the
  module, statement by statement: they say what each would do when called. In the
  repository as it is no call reaches them, because the module does not compile;
  \<open>analyze_file_security\<close> and \<open>security_analyzer_main\<close> below put the two together.

  What the four patterns of \<open>credential_patterns\<close> match cannot be read from the file,
  since their literals are not valid Python. They are a parameter \<open>patterns\<close> of
  \<open>visit_Str\<close> and of everything that calls it: a list of tests, one per pattern, each
  standing for \<open>re.search(pattern, value, re.IGNORECASE)\<close>. Nothing is assumed about
  them.
\<close>

datatype SecuritySeverity = LOW | MEDIUM | HIGH | CRITICAL

fun severity_value :: "SecuritySeverity \<Rightarrow> string" where
  "severity_value LOW = ''Low''"
| "severity_value MEDIUM = ''Medium''"
| "severity_value HIGH = ''High''"
| "severity_value CRITICAL = ''Critical''"

record SecurityIssue =
  rule_id :: string
  severity :: SecuritySeverity
  description :: string
  line_number :: int
  code_snippet :: string
  recommendation :: string

text \<open>The attributes of a \<open>SecurityAnalyzer\<close> instance; the attribute \<open>imports\<close> is
  \<open>imports_set\<close>.\<close>

record SecurityAnalyzer =
  issues :: "SecurityIssue list"
  source_lines :: "string list"
  imports_set :: "string set"

text \<open>\<open>getitem xs i\<close> is \<open>xs[i]\<close> on a Python list: an index below zero counts from the end,
  and an index outside \<open>-len(xs) .. len(xs) - 1\<close> raises \<open>IndexError\<close>.\<close>

definition getitem :: "'a list \<Rightarrow> int \<Rightarrow> error + 'a" where
  "getitem xs i =
     (if 0 \<le> i \<and> i < int (length xs) then Inr (xs ! nat i)
      else if i < 0 \<and> - int (length xs) \<le> i then Inr (xs ! nat (int (length xs) + i))
      else Inl IndexError)"

text \<open>Sequencing of two steps, the first of which may raise.\<close>

definition and_then :: "error + 'a \<Rightarrow> ('a \<Rightarrow> error + 'b) \<Rightarrow> error + 'b" where
  "and_then r f = (case r of Inl e \<Rightarrow> Inl e | Inr x \<Rightarrow> f x)"

definition add_issue ::
  "string \<Rightarrow> SecuritySeverity \<Rightarrow> string \<Rightarrow> int \<Rightarrow> string \<Rightarrow> SecurityAnalyzer
     \<Rightarrow> error + SecurityAnalyzer" where
  "add_issue rid sev descr lineno recomm self =
     and_then
       (if lineno \<le> int (length (source_lines self))
        then getitem (source_lines self) (lineno - 1)
        else Inr [])
       (\<lambda>snippet.
          Inr (self\<lparr>issues := issues self @
                 [\<lparr> rule_id = rid, severity = sev, description = descr,
                    line_number = lineno, code_snippet = strip snippet,
                    recommendation = recomm \<rparr>]\<rparr>))"

definition dangerous_imports :: "(string \<times> string) list" where
  "dangerous_imports =
     [(''pickle'', ''Pickle can execute arbitrary code during deserialization''),
      (''subprocess'', ''Subprocess can lead to command injection vulnerabilities''),
      (''eval'', ''Direct eval usage can execute arbitrary code''),
      (''exec'', ''Direct exec usage can execute arbitrary code'')]"

text \<open>The loop of \<open>visit_Import\<close> over \<open>node.names\<close>; the \<open>generic_visit\<close> that follows it
  finds only \<open>alias\<close> nodes and does nothing.\<close>

fun visit_Import :: "string list \<Rightarrow> int \<Rightarrow> SecurityAnalyzer \<Rightarrow> error + SecurityAnalyzer" where
  "visit_Import [] lineno self = Inr self"
| "visit_Import (name # rest) lineno self =
     (let self = self\<lparr>imports_set := insert name (imports_set self)\<rparr>
      in case map_of dangerous_imports name of
           None \<Rightarrow> visit_Import rest lineno self
         | Some why \<Rightarrow>
             and_then
               (add_issue (''dangerous_import_'' @ name) HIGH (''Dangerous import: '' @ why) lineno
                  (''Review usage of '' @ name @ '' and consider safer alternatives'') self)
               (visit_Import rest lineno))"

definition is_Name :: "node \<Rightarrow> bool" where
  "is_Name n = (case n of Name ident \<Rightarrow> True | _ \<Rightarrow> False)"

definition is_concat_or_format :: "node \<Rightarrow> bool" where
  "is_concat_or_format arg =
     (case arg of BinOp left op right \<Rightarrow> op = Add \<or> op = Mod | _ \<Rightarrow> False)"

text \<open>The loop of \<open>visit_Call\<close> over the arguments of an \<open>execute\<close> or \<open>executemany\<close>
  call.\<close>

fun sql_args_loop :: "node list \<Rightarrow> int \<Rightarrow> SecurityAnalyzer \<Rightarrow> error + SecurityAnalyzer" where
  "sql_args_loop [] lineno self = Inr self"
| "sql_args_loop (arg # rest) lineno self =
     (if is_concat_or_format arg
      then and_then
             (add_issue ''potential_sql_injection'' HIGH
                ''Potential SQL injection via string concatenation'' lineno
                ''Use parameterized queries instead of string concatenation'' self)
             (sql_args_loop rest lineno)
      else sql_args_loop rest lineno self)"

text \<open>\<open>visit_Call\<close> up to its call of \<open>generic_visit\<close>.\<close>

definition visit_Call :: "node \<Rightarrow> node list \<Rightarrow> int \<Rightarrow> SecurityAnalyzer \<Rightarrow> error + SecurityAnalyzer" where
  "visit_Call func args lineno self =
     (case func of
        Name func_name \<Rightarrow>
          if func_name = ''eval''
          then add_issue ''eval_usage'' CRITICAL ''Use of eval() can execute arbitrary code'' lineno
                 ''Replace eval() with ast.literal_eval() or safer parsing'' self
          else if func_name = ''exec''
          then add_issue ''exec_usage'' CRITICAL ''Use of exec() can execute arbitrary code'' lineno
                 ''Avoid exec() or use restricted execution environments'' self
          else if func_name = ''input'' \<and> length args = 0
          then add_issue ''input_without_prompt'' MEDIUM ''input() without prompt can be confusing''
                 lineno ''Always provide a clear prompt for user input'' self
          else Inr self
      | Attribute val attr \<Rightarrow>
          if is_Name val \<and> attr \<in> set [''execute'', ''executemany'']
          then sql_args_loop args lineno self
          else Inr self
      | _ \<Rightarrow> Inr self)"

text \<open>The loop of \<open>visit_Str\<close> over the credential patterns: the first pattern that matches
  adds the issue and ends the loop.\<close>

fun credentials_loop ::
  "(string \<Rightarrow> bool) list \<Rightarrow> string \<Rightarrow> int \<Rightarrow> SecurityAnalyzer \<Rightarrow> error + SecurityAnalyzer" where
  "credentials_loop [] val lineno self = Inr self"
| "credentials_loop (pattern # rest) val lineno self =
     (if pattern val
      then add_issue ''hardcoded_credentials'' HIGH
             ''Potential hardcoded credentials in string literal'' lineno
             ''Use environment variables or secure config files for credentials'' self
      else credentials_loop rest val lineno self)"

definition sql_keywords :: "string list" where
  "sql_keywords = [''select '', ''insert '', ''update '', ''delete '', ''drop '', ''create '']"

text \<open>The second check of \<open>visit_Str\<close>, lines 156 to 166. Python's \<open>or\<close> reads the source
  line only when \<open>'%s'\<close> is not in the literal.\<close>

definition sql_string_check :: "string \<Rightarrow> int \<Rightarrow> SecurityAnalyzer \<Rightarrow> error + SecurityAnalyzer" where
  "sql_string_check val lineno self =
     (if list_ex (\<lambda>keyword. str_in keyword val) sql_keywords
      then and_then
             (if str_in ''%s'' val then Inr True
              else and_then (getitem (source_lines self) (lineno - 1))
                     (\<lambda>line. Inr (str_in ''.format('' line)))
             (\<lambda>marker.
                if marker
                then add_issue ''sql_injection_string'' MEDIUM
                       ''SQL string with potential injection vulnerability'' lineno
                       ''Use parameterized queries for SQL operations'' self
                else Inr self)
      else Inr self)"

definition visit_Str ::
  "(string \<Rightarrow> bool) list \<Rightarrow> string \<Rightarrow> int \<Rightarrow> SecurityAnalyzer \<Rightarrow> error + SecurityAnalyzer" where
  "visit_Str patterns s lineno self =
     (let val = lower s
      in and_then (credentials_loop patterns val lineno self)
           (sql_string_check val lineno))"

text \<open>\<open>security_visit\<close> is the text of \<open>SecurityAnalyzer.visit\<close>: the three \<open>visit_\<close>
  methods, each followed by \<open>generic_visit\<close>, and \<open>generic_visit\<close> alone for every other
  node class.\<close>

fun security_visit ::
    "(string \<Rightarrow> bool) list \<Rightarrow> node \<Rightarrow> SecurityAnalyzer \<Rightarrow> error + SecurityAnalyzer"
  and security_visit_all ::
    "(string \<Rightarrow> bool) list \<Rightarrow> node list \<Rightarrow> SecurityAnalyzer \<Rightarrow> error + SecurityAnalyzer" where
  "security_visit ps (Import names lineno) self = visit_Import names lineno self"
| "security_visit ps (Call func args keywords lineno) self =
     (case visit_Call func args lineno self of
        Inl e \<Rightarrow> Inl e
      | Inr self \<Rightarrow>
          (case security_visit ps func self of
             Inl e \<Rightarrow> Inl e
           | Inr self \<Rightarrow>
               (case security_visit_all ps args self of
                  Inl e \<Rightarrow> Inl e
                | Inr self \<Rightarrow> security_visit_all ps keywords self)))"
| "security_visit ps (Str s lineno) self = visit_Str ps s lineno self"
| "security_visit ps (Module body) self = security_visit_all ps body self"
| "security_visit ps (ImportFrom modname names lineno) self = Inr self"
| "security_visit ps (FunctionDef name children) self = security_visit_all ps children self"
| "security_visit ps (ClassDef name children) self = security_visit_all ps children self"
| "security_visit ps (If test body orelse) self =
     (case security_visit ps test self of
        Inl e \<Rightarrow> Inl e
      | Inr self \<Rightarrow>
          (case security_visit_all ps body self of
             Inl e \<Rightarrow> Inl e
           | Inr self \<Rightarrow> security_visit_all ps orelse self))"
| "security_visit ps (While test body orelse) self =
     (case security_visit ps test self of
        Inl e \<Rightarrow> Inl e
      | Inr self \<Rightarrow>
          (case security_visit_all ps body self of
             Inl e \<Rightarrow> Inl e
           | Inr self \<Rightarrow> security_visit_all ps orelse self))"
| "security_visit ps (For target iter body orelse) self =
     (case security_visit ps target self of
        Inl e \<Rightarrow> Inl e
      | Inr self \<Rightarrow>
          (case security_visit ps iter self of
             Inl e \<Rightarrow> Inl e
           | Inr self \<Rightarrow>
               (case security_visit_all ps body self of
                  Inl e \<Rightarrow> Inl e
                | Inr self \<Rightarrow> security_visit_all ps orelse self)))"
| "security_visit ps (Try body handlers orelse finalbody) self =
     (case security_visit_all ps body self of
        Inl e \<Rightarrow> Inl e
      | Inr self \<Rightarrow>
          (case security_visit_all ps handlers self of
             Inl e \<Rightarrow> Inl e
           | Inr self \<Rightarrow>
               (case security_visit_all ps orelse self of
                  Inl e \<Rightarrow> Inl e
                | Inr self \<Rightarrow> security_visit_all ps finalbody self)))"
| "security_visit ps (BoolOp values) self = security_visit_all ps values self"
| "security_visit ps (Name ident) self = Inr self"
| "security_visit ps (Attribute val attr) self = security_visit ps val self"
| "security_visit ps (BinOp left op right) self =
     (case security_visit ps left self of
        Inl e \<Rightarrow> Inl e
      | Inr self \<Rightarrow> security_visit ps right self)"
| "security_visit ps (Other children) self = security_visit_all ps children self"
| "security_visit_all ps [] self = Inr self"
| "security_visit_all ps (n # ns) self =
     (case security_visit ps n self of
        Inl e \<Rightarrow> Inl e
      | Inr self \<Rightarrow> security_visit_all ps ns self)"

definition SecurityAnalyzer_init :: "string list \<Rightarrow> SecurityAnalyzer" where
  "SecurityAnalyzer_init lines = \<lparr> issues = [], source_lines = lines, imports_set = {} \<rparr>"

text \<open>The body of \<open>analyze_file_security\<close>, lines 176 to 185, after the file has been
  read, with \<open>parse\<close> for \<open>ast.parse\<close> as above.\<close>

definition analyze_file_security_body ::
  "(string \<Rightarrow> bool) list \<Rightarrow> (string \<Rightarrow> node option) \<Rightarrow> string
     \<Rightarrow> error + SecurityIssue list" where
  "analyze_file_security_body patterns parse content =
     (case parse content of
        None \<Rightarrow> Inr []
      | Some tree \<Rightarrow>
          and_then (security_visit patterns tree (SecurityAnalyzer_init (split (CHR 0x0A) content)))
            (\<lambda>analyzer. Inr (issues analyzer)))"

subsection \<open>The report\<close>

text \<open>\<open>str_int\<close> is the decimal text an f-string writes for an integer.\<close>

fun str_nat :: "nat \<Rightarrow> string" where
  "str_nat n =
     (if n < 10 then [char_of (48 + n)] else str_nat (n div 10) @ [char_of (48 + n mod 10)])"

declare str_nat.simps [simp del]

definition str_int :: "int \<Rightarrow> string" where
  "str_int i = (if i < 0 then ''-'' @ str_nat (nat (- i)) else str_nat (nat i))"

definition nl :: string where
  "nl = [CHR 0x0A]"

text \<open>\<open>severity_groups\<close> is the dictionary the first loop of \<open>generate_security_report\<close>
  builds, as an association list in insertion order: an issue goes to the end of the list of
  its severity, and a severity seen for the first time gets a new entry at the end.\<close>

definition add_to_group ::
  "(SecuritySeverity \<times> SecurityIssue list) list \<Rightarrow> SecurityIssue
     \<Rightarrow> (SecuritySeverity \<times> SecurityIssue list) list" where
  "add_to_group groups issue =
     (case map_of groups (severity issue) of
        None \<Rightarrow> groups @ [(severity issue, [issue])]
      | Some g \<Rightarrow>
          map (\<lambda>(sev, members). if sev = severity issue then (sev, members @ [issue])
                                 else (sev, members)) groups)"

definition severity_groups :: "SecurityIssue list \<Rightarrow> (SecuritySeverity \<times> SecurityIssue list) list" where
  "severity_groups issue_list = foldl add_to_group [] issue_list"

text \<open>The second loop, over the four severities in their fixed order and, for each severity
  that has a group, over the issues of the group. \<open>heading\<close> is what the loop writes once
  per group and \<open>entry\<close> what it writes per issue.\<close>

definition write_groups ::
  "(SecuritySeverity \<Rightarrow> 'a list) \<Rightarrow> (SecurityIssue \<Rightarrow> 'a list)
     \<Rightarrow> (SecuritySeverity \<times> SecurityIssue list) list \<Rightarrow> 'a list" where
  "write_groups heading entry groups =
     concat (map (\<lambda>sev. case map_of groups sev of
                           None \<Rightarrow> []
                         | Some members \<Rightarrow> heading sev @ concat (map entry members))
                 [CRITICAL, HIGH, MEDIUM, LOW])"

definition group_heading :: "SecuritySeverity \<Rightarrow> string" where
  "group_heading sev =
     nl @ severity_value sev @ '' Severity Issues:'' @ nl
     @ replicate (length (severity_value sev) + 17) (CHR ''-'') @ nl"

definition issue_entry :: "SecurityIssue \<Rightarrow> string" where
  "issue_entry issue =
     nl @ ''Line '' @ str_int (line_number issue) @ '': '' @ description issue @ nl
     @ ''  Code: '' @ code_snippet issue @ nl
     @ ''  Recommendation: '' @ recommendation issue @ nl"

definition summary_line :: "SecuritySeverity \<times> SecurityIssue list \<Rightarrow> string" where
  "summary_line entry =
     severity_value (fst entry) @ '': '' @ str_int (int (length (snd entry))) @ nl"

definition generate_security_report :: "SecurityIssue list \<Rightarrow> string" where
  "generate_security_report issue_list =
     (if issue_list = [] then ''No security issues found.''
      else
        (let groups = severity_groups issue_list
         in ''Security Analysis Report'' @ nl @ replicate 25 (CHR ''='') @ nl @ nl
            @ write_groups group_heading issue_entry groups
            @ nl @ nl @ ''Summary:'' @ nl
            @ ''Total Issues: '' @ str_int (int (length issue_list)) @ nl
            @ concat (map summary_line groups)))"

text \<open>The issues in the order in which the second loop writes their entries.\<close>

definition reported_issues :: "SecurityIssue list \<Rightarrow> SecurityIssue list" where
  "reported_issues issue_list =
     write_groups (\<lambda>sev. []) (\<lambda>issue. [issue]) (severity_groups issue_list)"

subsection \<open>Calls into the module\<close>

text \<open>
  \<open>analyze_file_security\<close> is what a caller of the function gets: the module is compiled
  first, and the body runs only if that succeeds. \<open>security_analyzer_main\<close> is the script,
  lines 223 to 243, after its checks of the command line: the analysis of the file and the
  report of its result.
\<close>

definition analyze_file_security ::
  "(string \<Rightarrow> bool) list \<Rightarrow> (string \<Rightarrow> node option) \<Rightarrow> string
     \<Rightarrow> error + SecurityIssue list" where
  "analyze_file_security patterns parse content =
     and_then import_security_analyzer
       (\<lambda>loaded. analyze_file_security_body patterns parse content)"

definition security_analyzer_main ::
  "(string \<Rightarrow> bool) list \<Rightarrow> (string \<Rightarrow> node option) \<Rightarrow> string \<Rightarrow> error + string" where
  "security_analyzer_main patterns parse content =
     and_then (analyze_file_security patterns parse content)
       (\<lambda>found. Inr (generate_security_report found))"

section \<open>Vocabulary of the properties and example inputs\<close>

text \<open>Two stand-ins for \<open>ast.parse\<close>: one that returns a given tree, one that raises
  \<open>SyntaxError\<close>.\<close>

definition parse_as :: "node \<Rightarrow> string \<Rightarrow> node option" where
  "parse_as tree content = Some tree"

definition parse_fails :: "string \<Rightarrow> node option" where
  "parse_fails content = None"

text \<open>One value of the parameter \<open>patterns\<close>, for the examples: four tests that match
  nothing.\<close>

definition never_matching :: "(string \<Rightarrow> bool) list" where
  "never_matching = replicate 4 (\<lambda>val. False)"

text \<open>\<open>inert n\<close>: the tree \<open>n\<close> has no node for which either analyzer defines a
  \<open>visit_\<close> method.\<close>

fun inert :: "node \<Rightarrow> bool" where
  "inert (Name ident) = True"
| "inert (Attribute val attr) = inert val"
| "inert (BinOp left op right) = (inert left \<and> inert right)"
| "inert (ImportFrom modname names lineno) = True"
| "inert (Other children) = list_all inert children"
| "inert n = False"

text \<open>\<open>dangerous_Import n\<close>: the tree \<open>n\<close> has a plain \<open>import\<close> statement that names one
  of the dangerous modules.\<close>

fun dangerous_Import :: "node \<Rightarrow> bool" where
  "dangerous_Import (Import names lineno) =
     list_ex (\<lambda>name. map_of dangerous_imports name \<noteq> None) names"
| "dangerous_Import (ImportFrom modname names lineno) = False"
| "dangerous_Import (Module body) = list_ex dangerous_Import body"
| "dangerous_Import (FunctionDef name children) = list_ex dangerous_Import children"
| "dangerous_Import (ClassDef name children) = list_ex dangerous_Import children"
| "dangerous_Import (If test body orelse) =
     (dangerous_Import test \<or> list_ex dangerous_Import body \<or> list_ex dangerous_Import orelse)"
| "dangerous_Import (While test body orelse) =
     (dangerous_Import test \<or> list_ex dangerous_Import body \<or> list_ex dangerous_Import orelse)"
| "dangerous_Import (For target iter body orelse) =
     (dangerous_Import target \<or> dangerous_Import iter
      \<or> list_ex dangerous_Import body \<or> list_ex dangerous_Import orelse)"
| "dangerous_Import (Try body handlers orelse finalbody) =
     (list_ex dangerous_Import body \<or> list_ex dangerous_Import handlers
      \<or> list_ex dangerous_Import orelse \<or> list_ex dangerous_Import finalbody)"
| "dangerous_Import (BoolOp values) = list_ex dangerous_Import values"
| "dangerous_Import (Call func args keywords lineno) =
     (dangerous_Import func \<or> list_ex dangerous_Import args \<or> list_ex dangerous_Import keywords)"
| "dangerous_Import (Name ident) = False"
| "dangerous_Import (Attribute val attr) = dangerous_Import val"
| "dangerous_Import (BinOp left op right) = (dangerous_Import left \<or> dangerous_Import right)"
| "dangerous_Import (Str s lineno) = False"
| "dangerous_Import (Other children) = list_ex dangerous_Import children"

definition is_import_finding :: "SecurityIssue \<Rightarrow> bool" where
  "is_import_finding issue = startswith (rule_id issue) ''dangerous_import_''"

definition tier :: "SecurityIssue list \<Rightarrow> SecuritySeverity \<Rightarrow> SecurityIssue list" where
  "tier issue_list sev = filter (\<lambda>issue. severity issue = sev) issue_list"

text \<open>The part of the report for one severity, written from the issues of that severity
  alone.\<close>

definition tier_section :: "SecurityIssue list \<Rightarrow> SecuritySeverity \<Rightarrow> string" where
  "tier_section issue_list sev =
     (if tier issue_list sev = [] then []
      else group_heading sev @ concat (map issue_entry (tier issue_list sev)))"

text \<open>
  The scenario file:
  \<^verbatim>\<open>import pickle\<close>
  \<^verbatim>\<open>def f(x):\<close>
  \<^verbatim>\<open>    if x:\<close>
  \<^verbatim>\<open>        return 1\<close>
  \<^verbatim>\<open>    else:\<close>
  \<^verbatim>\<open>        return 2\<close>
  and its tree: the \<open>arguments\<close> node with its one \<open>arg\<close>, and the two \<open>Return\<close> nodes
  with their \<open>Constant\<close>, are \<open>Other\<close> nodes.
\<close>

definition scenario_source :: string where
  "scenario_source =
     ''import pickle'' @ nl @ ''def f(x):'' @ nl @ ''    if x:'' @ nl
     @ ''        return 1'' @ nl @ ''    else:'' @ nl @ ''        return 2'' @ nl"

definition scenario_tree :: node where
  "scenario_tree =
     Module [Import [''pickle''] 1,
             FunctionDef ''f''
               [Other [Other []],
                If (Name ''x'') [Other [Other []]] [Other [Other []]]]]"

text \<open>
  A call whose keyword argument is written before its starred argument:
  \<^verbatim>\<open>f(k=eval(a),\<close>
  \<^verbatim>\<open>  *eval(b))\<close>
  The \<open>Starred\<close> node is in \<open>args\<close> and the \<open>keyword\<close> node in \<open>keywords\<close>, so the call of
  the second line is visited first.
\<close>

definition starred_source :: string where
  "starred_source = ''f(k=eval(a),'' @ nl @ ''  *eval(b))'' @ nl"

definition starred_tree :: node where
  "starred_tree =
     Module [Other [Call (Name ''f'')
                      [Other [Call (Name ''eval'') [Name ''b''] [] 2]]
                      [Other [Call (Name ''eval'') [Name ''a''] [] 1]]
                      1]]"

definition eval_issue :: "int \<Rightarrow> string \<Rightarrow> SecurityIssue" where
  "eval_issue lineno snippet =
     \<lparr> rule_id = ''eval_usage'', severity = CRITICAL,
       description = ''Use of eval() can execute arbitrary code'',
       line_number = lineno, code_snippet = snippet,
       recommendation = ''Replace eval() with ast.literal_eval() or safer parsing'' \<rparr>"


text \<open>
  The source line of an assignment of a string literal that holds the word \<open>unselect\<close>:
  \<^verbatim>\<open>q = "unselect %s"\<close>
\<close>

definition unselect_line :: string where
  "unselect_line = ''q = '' @ [CHR 0x22] @ ''unselect %s'' @ [CHR 0x22]"

text \<open>
  A source line that formats a query:
  \<^verbatim>\<open>q = "DELETE FROM t WHERE id = {}".format(x)\<close>
\<close>

definition delete_line :: string where
  "delete_line =
     ''q = '' @ [CHR 0x22] @ ''DELETE FROM t WHERE id = {}'' @ [CHR 0x22] @ ''.format(x)''"

text \<open>
  A file whose only reference to \<open>pickle\<close> is a from-import:
  \<^verbatim>\<open>from pickle import loads\<close>
  \<^verbatim>\<open>loads(eval(x))\<close>
\<close>

definition from_import_source :: string where
  "from_import_source = ''from pickle import loads'' @ nl @ ''loads(eval(x))'' @ nl"

definition from_import_tree :: node where
  "from_import_tree =
     Module [ImportFrom ''pickle'' [''loads''] 1,
             Other [Call (Name ''loads'') [Call (Name ''eval'') [Name ''x''] [] 2] [] 2]]"

section \<open>Properties of the complexity analysis\<close>

text \<open>A visit changes neither the nesting level nor the two Halstead collections: every
  increment of the level is undone after the children, and no method writes to the
  collections.\<close>

lemma complexity_visit_frame:
  "nesting_level (complexity_visit n s) = nesting_level s
   \<and> halstead_operators (complexity_visit n s) = halstead_operators s
   \<and> halstead_operands (complexity_visit n s) = halstead_operands s"
  "nesting_level (complexity_visit_all ns s) = nesting_level s
   \<and> halstead_operators (complexity_visit_all ns s) = halstead_operators s
   \<and> halstead_operands (complexity_visit_all ns s) = halstead_operands s"
  by (induction n s and ns s rule: complexity_visit_complexity_visit_all.induct)
     (simp_all add: enter_branch_def enter_try_def leave_nesting_def Let_def)

text \<open>
  Claim C2, at a \<open>try\<close> with one handler, an \<open>else\<close> body of two statements and no
  \<open>finally\<close>: the claim counts one for the handler and one for the \<open>else\<close> clause, which is
  2. \<open>visit_Try\<close> adds the lengths of \<open>orelse\<close> and \<open>finalbody\<close>, which are lists of
  statements, so it adds 3.
\<close>

theorem try_counts_statements:
  "complexity (complexity_visit (Try [Other []] [Other []] [Other [], Other []] []) self)
     = complexity self + 3"
  by (simp add: enter_try_def leave_nesting_def Let_def)

text \<open>
  Claim C6: for a file that parses, the maintainability index is
  \<open>max(0, 171 - 5.2 * c - 0.23 * n)\<close>, where \<open>c\<close> is the complexity the traversal of the
  tree ends with at the root, which is also the reported cyclomatic complexity, and \<open>n\<close> is
  the number of lines of the file that are neither blank nor comments, which is also the
  reported line count; and for every input, parsed or not, the index is not negative.
\<close>

theorem maintainability_index_floor:
  "0 \<le> maintainability_index (analyze_file_complexity parse content)
   \<and> (parse content = Some tree \<longrightarrow>
        maintainability_index (analyze_file_complexity parse content)
          = max 0 (171
                   - 5.2 * real_of_int (complexity (complexity_visit tree ComplexityAnalyzer_init))
                   - 0.23 * real_of_int
                       (int (length (filter is_code_line (split (CHR 0x0A) content)))))
        \<and> cyclomatic_complexity (analyze_file_complexity parse content)
          = complexity (complexity_visit tree ComplexityAnalyzer_init)
        \<and> lines_of_code (analyze_file_complexity parse content)
          = int (length (filter is_code_line (split (CHR 0x0A) content))))"
  by (simp add: analyze_file_complexity_def zero_metrics_def Let_def split: option.splits)

text \<open>The scenario file parses; its traversal ends with complexity 3, six of its lines
  count, and its index is \<open>171 - 15.6 - 1.38\<close>.\<close>

theorem maintainability_index_floor_witness:
  "parse_as scenario_tree scenario_source = Some scenario_tree
   \<and> complexity (complexity_visit scenario_tree ComplexityAnalyzer_init) = 3
   \<and> int (length (filter is_code_line (split (CHR 0x0A) scenario_source))) = 6
   \<and> maintainability_index (analyze_file_complexity (parse_as scenario_tree) scenario_source)
       = 154.02"
proof -
  have parsed: "parse_as scenario_tree scenario_source = Some scenario_tree"
    by (simp add: parse_as_def)
  have root: "complexity (complexity_visit scenario_tree ComplexityAnalyzer_init) = 3"
    by code_simp
  have count: "int (length (filter is_code_line (split (CHR 0x0A) scenario_source))) = 6"
    by code_simp
  from maintainability_index_floor [of "parse_as scenario_tree" scenario_source scenario_tree]
    parsed
  have "maintainability_index (analyze_file_complexity (parse_as scenario_tree) scenario_source)
          = max 0 (171
                   - 5.2 * real_of_int (complexity (complexity_visit scenario_tree ComplexityAnalyzer_init))
                   - 0.23 * real_of_int
                       (int (length (filter is_code_line (split (CHR 0x0A) scenario_source)))))"
    by blast
  then have "maintainability_index (analyze_file_complexity (parse_as scenario_tree) scenario_source)
          = 154.02"
    unfolding root count by simp
  with parsed root count show ?thesis by blast
qed

text \<open>
  Claim C7: for a file that parses, the reported Halstead volume is 0, because the
  traversal leaves the operator and the operand collection empty.
\<close>

theorem halstead_volume_zero:
  assumes "parse content = Some tree"
  shows "halstead_volume (analyze_file_complexity parse content) = 0
         \<and> halstead_operators (complexity_visit tree ComplexityAnalyzer_init) = []
         \<and> halstead_operands (complexity_visit tree ComplexityAnalyzer_init) = []"
  using assms
  by (simp add: analyze_file_complexity_def complexity_visit_frame Let_def
        ComplexityAnalyzer_init_def)

theorem halstead_volume_zero_witness:
  "parse_as scenario_tree scenario_source = Some scenario_tree
   \<and> halstead_volume (analyze_file_complexity (parse_as scenario_tree) scenario_source) = 0"
  using halstead_volume_zero [of "parse_as scenario_tree" scenario_source scenario_tree]
  by (simp add: parse_as_def)

text \<open>
  Claim C9: the visit of any node leaves the nesting level as it found it; the visit of a
  function definition ends with the counters of the enclosing scope, as they were on
  entry, plus the counters the function's own scope reached from 1 and 0; and the
  traversal of a whole tree from a new analyzer ends at nesting level 0.
\<close>

theorem nesting_balanced:
  "nesting_level (complexity_visit n self) = nesting_level self
   \<and> complexity (complexity_visit (FunctionDef name children) self)
       = complexity self
         + complexity (complexity_visit_all children
             (self\<lparr>functions_list := functions_list self @ [name],
                    complexity := 1, cognitive := 0\<rparr>))
   \<and> cognitive (complexity_visit (FunctionDef name children) self)
       = cognitive self
         + cognitive (complexity_visit_all children
             (self\<lparr>functions_list := functions_list self @ [name],
                    complexity := 1, cognitive := 0\<rparr>))
   \<and> nesting_level (complexity_visit tree ComplexityAnalyzer_init) = 0"
  by (simp add: complexity_visit_frame Let_def ComplexityAnalyzer_init_def)

text \<open>A tree without any node that has a \<open>visit_\<close> method leaves both analyzers as
  they are.\<close>

lemma inert_complexity_visit:
  "inert n \<Longrightarrow> complexity_visit n s = s"
  "list_all inert ns \<Longrightarrow> complexity_visit_all ns s = s"
  by (induction n s and ns s rule: complexity_visit_complexity_visit_all.induct) simp_all

lemma inert_security_visit:
  "inert n \<Longrightarrow> security_visit ps n self = Inr self"
  "list_all inert ns \<Longrightarrow> security_visit_all ps ns self = Inr self"
  by (induction ps n self and ps ns self rule: security_visit_security_visit_all.induct)
     simp_all

text \<open>What \<open>visit_Try\<close> adds when nothing below the \<open>try\<close> counts: the number of
  handlers and the numbers of statements of the \<open>else\<close> and the \<open>finally\<close> body.\<close>

lemma visit_Try_adds_lengths:
  assumes "list_all inert body" and "list_all inert handlers"
      and "list_all inert orelse" and "list_all inert finalbody"
  shows "complexity (complexity_visit (Try body handlers orelse finalbody) self)
           = complexity self + int (length handlers) + int (length orelse)
             + int (length finalbody)"
  using assms
  by (simp add: inert_complexity_visit enter_try_def leave_nesting_def Let_def)

subsection \<open>The scenario\<close>

text \<open>
  Claim C1, as the code has it: for a file that is a plain import followed by one function
  whose body is a single \<open>if\<close>/\<open>else\<close>, with nothing else below them that the complexity
  analyzer reacts to, the reported cyclomatic complexity is 3 (the base 1 of the module
  plus the 2 of the function), the cognitive complexity is 1 and the function count is 1.
\<close>

theorem scenario_metrics:
  assumes "parse content
             = Some (Module [Import [m] lineno,
                             FunctionDef name [arguments, If test body orelse]])"
      and "inert arguments" and "inert test" and "list_all inert body" and "list_all inert orelse"
  shows "cyclomatic_complexity (analyze_file_complexity parse content) = 3
         \<and> cognitive_complexity (analyze_file_complexity parse content) = 1
         \<and> num_functions (analyze_file_complexity parse content) = 1"
proof -
  let ?tree = "Module [Import [m] lineno, FunctionDef name [arguments, If test body orelse]]"
  let ?final = "complexity_visit ?tree ComplexityAnalyzer_init"
  have "complexity ?final = 3 \<and> cognitive ?final = 1 \<and> functions_list ?final = [name]"
    using assms(2-5)
    by (simp add: inert_complexity_visit ComplexityAnalyzer_init_def Let_def
          enter_branch_def leave_nesting_def)
  then show ?thesis
    using assms(1) by (simp add: analyze_file_complexity_def Let_def)
qed

theorem scenario_metrics_witness:
  "parse_as scenario_tree scenario_source
     = Some (Module [Import [''pickle''] 1,
                     FunctionDef ''f''
                       [Other [Other []],
                        If (Name ''x'') [Other [Other []]] [Other [Other []]]]])
   \<and> inert (Other [Other []]) \<and> inert (Name ''x'')
   \<and> list_all inert [Other [Other []]]
   \<and> cyclomatic_complexity (analyze_file_complexity (parse_as scenario_tree) scenario_source) = 3
   \<and> cognitive_complexity (analyze_file_complexity (parse_as scenario_tree) scenario_source) = 1
   \<and> num_functions (analyze_file_complexity (parse_as scenario_tree) scenario_source) = 1"
proof -
  have parsed: "parse_as scenario_tree scenario_source
     = Some (Module [Import [''pickle''] 1,
                     FunctionDef ''f''
                       [Other [Other []],
                        If (Name ''x'') [Other [Other []]] [Other [Other []]]]])"
    by (simp add: parse_as_def scenario_tree_def)
  have quiet: "inert (Other [Other []])" "inert (Name ''x'')" "list_all inert [Other [Other []]]"
    by simp_all
  from scenario_metrics [where parse = "parse_as scenario_tree" and content = scenario_source,
      OF parsed quiet(1,2,3,3)]
    parsed quiet
  show ?thesis by blast
qed

text \<open>Claim C1 as stated fails at the scenario file: the reported cyclomatic complexity is
  3, not 2.\<close>

theorem scenario_cyclomatic_is_three:
  "cyclomatic_complexity (analyze_file_complexity (parse_as scenario_tree) scenario_source) = 3
   \<and> cyclomatic_complexity (analyze_file_complexity (parse_as scenario_tree) scenario_source) \<noteq> 2"
  by code_simp

section \<open>Properties of the security module\<close>

subsection \<open>The module does not compile\<close>

text \<open>Each of the four lines ends inside its literal, so compiling the module raises
  \<open>SyntaxError\<close>, and so does every call of \<open>analyze_file_security\<close> and every run of
  the script, whatever the file and whatever the patterns were meant to be.\<close>

lemma literal_lines_unterminated:
  "list_all unterminated credential_literal_lines"
  by code_simp

lemma import_security_analyzer_raises:
  "import_security_analyzer = Inl SyntaxError"
  by code_simp

lemma security_analyzer_raises:
  "analyze_file_security patterns parse content = Inl SyntaxError"
  "security_analyzer_main patterns parse content = Inl SyntaxError"
  by (simp_all add: analyze_file_security_def security_analyzer_main_def
        import_security_analyzer_raises and_then_def)

subsection \<open>The snippet of an issue\<close>

text \<open>Every call of \<open>add_issue\<close> in the module passes the \<open>lineno\<close> of a node of the
  parsed tree, which is 1 or more.\<close>

lemma add_issue_in_range:
  assumes "1 \<le> lineno" and "lineno \<le> int (length (source_lines self))"
  shows "add_issue rid sev descr lineno recomm self
     = Inr (self\<lparr>issues := issues self @
               [\<lparr> rule_id = rid, severity = sev, description = descr, line_number = lineno,
                  code_snippet = strip (source_lines self ! nat (lineno - 1)),
                  recommendation = recomm \<rparr>]\<rparr>)"
  using assms by (simp add: add_issue_def getitem_def and_then_def)

lemma add_issue_past_last_line:
  assumes "int (length (source_lines self)) < lineno"
  shows "add_issue rid sev descr lineno recomm self
     = Inr (self\<lparr>issues := issues self @
               [\<lparr> rule_id = rid, severity = sev, description = descr, line_number = lineno,
                  code_snippet = [], recommendation = recomm \<rparr>]\<rparr>)"
  using assms by (simp add: add_issue_def and_then_def strip_def)

lemma add_issue_appends:
  assumes "add_issue rid sev descr lineno recomm self = Inr self'"
  shows "\<exists>snippet. self' = self\<lparr>issues := issues self @
               [\<lparr> rule_id = rid, severity = sev, description = descr, line_number = lineno,
                  code_snippet = snippet, recommendation = recomm \<rparr>]\<rparr>"
  using assms by (auto simp: add_issue_def and_then_def split: if_splits sum.splits)

text \<open>
  Claim C5, as the text of \<open>add_issue\<close> has it: for every line number from 1 on, the call
  does not fail and appends one issue; its snippet is the source line of that number,
  trimmed, when the number is within the source lines, and the empty string when it is
  past the last line.
\<close>

theorem add_issue_snippet:
  assumes "1 \<le> lineno"
  shows "add_issue rid sev descr lineno recomm self
     = Inr (self\<lparr>issues := issues self @
               [\<lparr> rule_id = rid, severity = sev, description = descr, line_number = lineno,
                  code_snippet =
                    (if lineno \<le> int (length (source_lines self))
                     then strip (source_lines self ! nat (lineno - 1)) else []),
                  recommendation = recomm \<rparr>]\<rparr>)"
proof (cases "lineno \<le> int (length (source_lines self))")
  case True
  with assms show ?thesis by (simp add: add_issue_in_range)
next
  case False
  then show ?thesis by (simp add: add_issue_past_last_line)
qed

text \<open>Line 2 of two lines gives the second line without its blanks; line 3 gives the
  empty snippet.\<close>

theorem add_issue_snippet_witness:
  "(1::int) \<le> 2 \<and> (1::int) \<le> 3
   \<and> add_issue ''rule'' LOW ''text'' 2 ''advice'' (SecurityAnalyzer_init [''first'', ''  last  ''])
     = Inr \<lparr> issues = [\<lparr> rule_id = ''rule'', severity = LOW, description = ''text'',
                          line_number = 2, code_snippet = ''last'',
                          recommendation = ''advice'' \<rparr>],
             source_lines = [''first'', ''  last  ''], imports_set = {} \<rparr>
   \<and> add_issue ''rule'' LOW ''text'' 3 ''advice'' (SecurityAnalyzer_init [''first'', ''  last  ''])
     = Inr \<lparr> issues = [\<lparr> rule_id = ''rule'', severity = LOW, description = ''text'',
                          line_number = 3, code_snippet = [],
                          recommendation = ''advice'' \<rparr>],
             source_lines = [''first'', ''  last  ''], imports_set = {} \<rparr>"
proof -
  have two: "(1::int) \<le> 2" and three: "(1::int) \<le> 3"
    by simp_all
  have trimmed: "strip ''  last  '' = ''last''"
    by code_simp
  show ?thesis
    using add_issue_snippet [OF two, of "''rule''" LOW "''text''" "''advice''"
            "SecurityAnalyzer_init [''first'', ''  last  '']"]
          add_issue_snippet [OF three, of "''rule''" LOW "''text''" "''advice''"
            "SecurityAnalyzer_init [''first'', ''  last  '']"]
          trimmed
    by (simp add: SecurityAnalyzer_init_def)
qed

text \<open>
  Claim C5 as stated fails below line 1, at line numbers 0 and -2 of a two-line source: the
  claim gives an empty snippet for both. \<open>add_issue\<close> only compares the line number with
  the number of lines, so line 0 reads index -1, the last line, and line -2 reads index
  -3, which raises.
\<close>

theorem add_issue_below_first_line:
  "add_issue ''rule'' LOW ''text'' 0 ''advice'' (SecurityAnalyzer_init [''first'', ''last''])
     = Inr \<lparr> issues = [\<lparr> rule_id = ''rule'', severity = LOW, description = ''text'',
                          line_number = 0, code_snippet = ''last'',
                          recommendation = ''advice'' \<rparr>],
             source_lines = [''first'', ''last''], imports_set = {} \<rparr>
   \<and> add_issue ''rule'' LOW ''text'' (- 2) ''advice'' (SecurityAnalyzer_init [''first'', ''last''])
     = Inl IndexError"
  by (simp add: add_issue_def SecurityAnalyzer_init_def getitem_def and_then_def strip_def
        is_space_def)

subsection \<open>The SQL check of string literals\<close>

text \<open>\<open>str_in\<close> is the substring test.\<close>

lemma str_in_iff: "str_in p s \<longleftrightarrow> (\<exists>pre post. s = pre @ p @ post)"
proof (induction s)
  case Nil
  show ?case by auto
next
  case (Cons c cs)
  have "startswith (c # cs) p \<longleftrightarrow> (\<exists>post. c # cs = p @ post)"
    unfolding startswith_def
    by (metis append_eq_conv_conj append_take_drop_id)
  moreover have "(\<exists>pre post. c # cs = pre @ p @ post)
      \<longleftrightarrow> (\<exists>post. c # cs = p @ post) \<or> (\<exists>pre post. cs = pre @ p @ post)"
  proof
    assume "\<exists>pre post. c # cs = pre @ p @ post"
    then obtain pre post where eq: "c # cs = pre @ p @ post" by blast
    show "(\<exists>post. c # cs = p @ post) \<or> (\<exists>pre post. cs = pre @ p @ post)"
    proof (cases pre)
      case Nil
      with eq show ?thesis by auto
    next
      case (Cons a pre')
      with eq have "cs = pre' @ p @ post" by simp
      then show ?thesis by blast
    qed
  next
    assume "(\<exists>post. c # cs = p @ post) \<or> (\<exists>pre post. cs = pre @ p @ post)"
    then show "\<exists>pre post. c # cs = pre @ p @ post"
    proof
      assume "\<exists>post. c # cs = p @ post"
      then obtain post where "c # cs = [] @ p @ post" by auto
      then show ?thesis by blast
    next
      assume "\<exists>pre post. cs = pre @ p @ post"
      then obtain pre post where "c # cs = (c # pre) @ p @ post" by auto
      then show ?thesis by blast
    qed
  qed
  ultimately show ?case using Cons.IH by simp
qed

text \<open>When the loop over the credential patterns returns, it has appended nothing or one
  issue \<open>hardcoded_credentials\<close>.\<close>

lemma credentials_loop_appends:
  "credentials_loop patterns val lineno self = Inr mid
     \<Longrightarrow> \<exists>creds. mid = self\<lparr>issues := issues self @ creds\<rparr>
                 \<and> list_all (\<lambda>issue. rule_id issue = ''hardcoded_credentials'') creds"
proof (induction patterns)
  case Nil
  then have "mid = self\<lparr>issues := issues self @ []\<rparr>" by simp
  then show ?case by (intro exI [where x = "[]"]) simp
next
  case (Cons pattern rest)
  show ?case
  proof (cases "pattern val")
    case True
    with Cons.prems obtain snippet where
      "mid = self\<lparr>issues := issues self @
               [\<lparr> rule_id = ''hardcoded_credentials'', severity = HIGH,
                  description = ''Potential hardcoded credentials in string literal'',
                  line_number = lineno, code_snippet = snippet,
                  recommendation =
                    ''Use environment variables or secure config files for credentials'' \<rparr>]\<rparr>"
      using add_issue_appends by fastforce
    then show ?thesis
      by (intro exI [where x = "[\<lparr> rule_id = ''hardcoded_credentials'', severity = HIGH,
                  description = ''Potential hardcoded credentials in string literal'',
                  line_number = lineno, code_snippet = snippet,
                  recommendation =
                    ''Use environment variables or secure config files for credentials'' \<rparr>]"])
         simp
  next
    case False
    with Cons show ?thesis by simp
  qed
qed

lemma credentials_loop_in_range:
  assumes "1 \<le> lineno" and "lineno \<le> int (length (source_lines self))"
  shows "\<exists>mid. credentials_loop patterns val lineno self = Inr mid"
  using add_issue_in_range [OF assms] by (induction patterns) simp_all

text \<open>What the second check does to an analyzer whose issues so far are not SQL issues.\<close>

lemma sql_string_check_result:
  assumes "sql_string_check val lineno mid = Inr self'"
  shows "\<exists>new. self' = mid\<lparr>issues := issues mid @ new\<rparr>
           \<and> ((\<exists>issue \<in> set new. rule_id issue = ''sql_injection_string'')
                \<longleftrightarrow> list_ex (\<lambda>keyword. str_in keyword val) sql_keywords
                    \<and> (str_in ''%s'' val
                       \<or> (\<exists>line. getitem (source_lines mid) (lineno - 1) = Inr line
                                 \<and> str_in ''.format('' line)))
           \<and> list_all (\<lambda>issue. rule_id issue = ''sql_injection_string''
                           \<and> severity issue = MEDIUM \<and> line_number issue = lineno) new"
proof (cases "list_ex (\<lambda>keyword. str_in keyword val) sql_keywords")
  case False
  with assms have "self' = mid\<lparr>issues := issues mid @ []\<rparr>"
    by (simp add: sql_string_check_def)
  with False show ?thesis by (intro exI [where x = "[]"]) simp
next
  case True
  let ?marker = "str_in ''%s'' val
                   \<or> (\<exists>line. getitem (source_lines mid) (lineno - 1) = Inr line
                             \<and> str_in ''.format('' line)"
  show ?thesis
  proof (cases ?marker)
    case False
    with True assms have "self' = mid\<lparr>issues := issues mid @ []\<rparr>"
      by (auto simp: sql_string_check_def and_then_def split: sum.splits if_splits)
    with False show ?thesis by (intro exI [where x = "[]"]) simp
  next
    case marker: True
    with True assms have
      "add_issue ''sql_injection_string'' MEDIUM
         ''SQL string with potential injection vulnerability'' lineno
         ''Use parameterized queries for SQL operations'' mid = Inr self'"
      by (auto simp: sql_string_check_def and_then_def split: sum.splits if_splits)
    from add_issue_appends [OF this] obtain snippet where
      "self' = mid\<lparr>issues := issues mid @
               [\<lparr> rule_id = ''sql_injection_string'', severity = MEDIUM,
                  description = ''SQL string with potential injection vulnerability'',
                  line_number = lineno, code_snippet = snippet,
                  recommendation = ''Use parameterized queries for SQL operations'' \<rparr>]\<rparr>"
      by blast
    with True marker show ?thesis
      by (intro exI [where x = "[\<lparr> rule_id = ''sql_injection_string'', severity = MEDIUM,
                  description = ''SQL string with potential injection vulnerability'',
                  line_number = lineno, code_snippet = snippet,
                  recommendation = ''Use parameterized queries for SQL operations'' \<rparr>]"])
         simp
  qed
qed

lemma sql_string_check_in_range:
  assumes "1 \<le> lineno" and "lineno \<le> int (length (source_lines mid))"
  shows "\<exists>self'. sql_string_check val lineno mid = Inr self'"
proof -
  have "getitem (source_lines mid) (lineno - 1) = Inr (source_lines mid ! nat (lineno - 1))"
    using assms by (simp add: getitem_def)
  then show ?thesis
    using add_issue_in_range [OF assms]
    by (simp add: sql_string_check_def and_then_def)
qed

text \<open>
  Claim C4, as the text of \<open>visit_Str\<close> has it, for any credential patterns: when the
  visit of a string literal returns, it has appended an issue \<open>sql_injection_string\<close> if
  and only if the lowercased literal has one of \<open>select\<close>, \<open>insert\<close>, \<open>update\<close>,
  \<open>delete\<close>, \<open>drop\<close>, \<open>create\<close>, each followed by a space, as a substring, and a marker
  shows: \<open>%s\<close> in the lowercased literal, or \<open>.format(\<close> in the source line of the
  literal. Every such issue has severity Medium and the literal's line number. The visit
  does return when the literal's line is one of the source lines.
\<close>

theorem sql_string_finding:
  "(visit_Str patterns s lineno self = Inr self' \<longrightarrow>
      (\<exists>found. self' = self\<lparr>issues := issues self @ found\<rparr>
         \<and> ((\<exists>issue \<in> set found. rule_id issue = ''sql_injection_string'')
              \<longleftrightarrow> list_ex (\<lambda>keyword. str_in keyword (lower s)) sql_keywords
                  \<and> (str_in ''%s'' (lower s)
                     \<or> (\<exists>line. getitem (source_lines self) (lineno - 1) = Inr line
                               \<and> str_in ''.format('' line)))
         \<and> list_all (\<lambda>issue. rule_id issue = ''sql_injection_string''
                         \<longrightarrow> severity issue = MEDIUM \<and> line_number issue = lineno) found))
   \<and> (1 \<le> lineno \<and> lineno \<le> int (length (source_lines self)) \<longrightarrow>
        (\<exists>self'. visit_Str patterns s lineno self = Inr self'))"
proof (intro conjI impI)
  assume run: "visit_Str patterns s lineno self = Inr self'"
  then obtain mid where
    first: "credentials_loop patterns (lower s) lineno self = Inr mid"
    and second: "sql_string_check (lower s) lineno mid = Inr self'"
    by (auto simp: visit_Str_def and_then_def Let_def split: sum.splits)
  from credentials_loop_appends [OF first] obtain creds where
    mid: "mid = self\<lparr>issues := issues self @ creds\<rparr>"
    and creds: "list_all (\<lambda>issue. rule_id issue = ''hardcoded_credentials'') creds"
    by blast
  from sql_string_check_result [OF second] obtain new where
    self': "self' = mid\<lparr>issues := issues mid @ new\<rparr>"
    and iff: "(\<exists>issue \<in> set new. rule_id issue = ''sql_injection_string'')
                \<longleftrightarrow> list_ex (\<lambda>keyword. str_in keyword (lower s)) sql_keywords
                    \<and> (str_in ''%s'' (lower s)
                       \<or> (\<exists>line. getitem (source_lines mid) (lineno - 1) = Inr line
                                 \<and> str_in ''.format('' line))"
    and new: "list_all (\<lambda>issue. rule_id issue = ''sql_injection_string''
                           \<and> severity issue = MEDIUM \<and> line_number issue = lineno) new"
    by blast
  have lines: "source_lines mid = source_lines self"
    by (simp add: mid)
  have no_sql: "\<not> (\<exists>issue \<in> set creds. rule_id issue = ''sql_injection_string'')"
    using creds by (auto simp: list_all_iff)
  have both: "self' = self\<lparr>issues := issues self @ (creds @ new)\<rparr>"
    by (simp add: self' mid)
  have "(\<exists>issue \<in> set (creds @ new). rule_id issue = ''sql_injection_string'')
          \<longleftrightarrow> (\<exists>issue \<in> set new. rule_id issue = ''sql_injection_string'')"
    using no_sql by auto
  moreover have "list_all (\<lambda>issue. rule_id issue = ''sql_injection_string''
                   \<longrightarrow> severity issue = MEDIUM \<and> line_number issue = lineno) (creds @ new)"
    using creds new by (auto simp: list_all_iff)
  ultimately show "\<exists>found. self' = self\<lparr>issues := issues self @ found\<rparr>
         \<and> ((\<exists>issue \<in> set found. rule_id issue = ''sql_injection_string'')
              \<longleftrightarrow> list_ex (\<lambda>keyword. str_in keyword (lower s)) sql_keywords
                  \<and> (str_in ''%s'' (lower s)
                     \<or> (\<exists>line. getitem (source_lines self) (lineno - 1) = Inr line
                               \<and> str_in ''.format('' line)))
         \<and> list_all (\<lambda>issue. rule_id issue = ''sql_injection_string''
                         \<longrightarrow> severity issue = MEDIUM \<and> line_number issue = lineno) found"
    using both iff lines by (intro exI [where x = "creds @ new"]) simp
next
  assume range: "1 \<le> lineno \<and> lineno \<le> int (length (source_lines self))"
  then obtain mid where first: "credentials_loop patterns (lower s) lineno self = Inr mid"
    using credentials_loop_in_range by blast
  from credentials_loop_appends [OF first] have "source_lines mid = source_lines self"
    by auto
  with range obtain self' where "sql_string_check (lower s) lineno mid = Inr self'"
    using sql_string_check_in_range [of lineno mid] by auto
  with first show "\<exists>self'. visit_Str patterns s lineno self = Inr self'"
    by (simp add: visit_Str_def and_then_def)
qed

text \<open>The literal of \<open>delete_line\<close>, visited on its line with patterns that match nothing:
  the visit returns, the verb and the \<open>.format(\<close> marker are there, and the issue is
  among those added.\<close>

theorem sql_string_finding_witness:
  "(1::int) \<le> 1 \<and> 1 \<le> int (length (source_lines (SecurityAnalyzer_init [delete_line])))
   \<and> visit_Str never_matching ''DELETE FROM t WHERE id = {}'' 1 (SecurityAnalyzer_init [delete_line])
       = Inr \<lparr> issues = [\<lparr> rule_id = ''sql_injection_string'', severity = MEDIUM,
                           description = ''SQL string with potential injection vulnerability'',
                           line_number = 1, code_snippet = delete_line,
                           recommendation = ''Use parameterized queries for SQL operations'' \<rparr>],
               source_lines = [delete_line], imports_set = {} \<rparr>
   \<and> list_ex (\<lambda>keyword. str_in keyword (lower ''DELETE FROM t WHERE id = {}'')) sql_keywords
   \<and> getitem (source_lines (SecurityAnalyzer_init [delete_line])) (1 - 1) = Inr delete_line
   \<and> str_in ''.format('' delete_line"
proof -
  let ?start = "SecurityAnalyzer_init [delete_line]"
  let ?issue = "\<lparr> rule_id = ''sql_injection_string'', severity = MEDIUM,
                  description = ''SQL string with potential injection vulnerability'',
                  line_number = 1, code_snippet = delete_line,
                  recommendation = ''Use parameterized queries for SQL operations'' \<rparr>"
  have range: "(1::int) \<le> 1 \<and> 1 \<le> int (length (source_lines ?start))"
    by (simp add: SecurityAnalyzer_init_def)
  have verb: "list_ex (\<lambda>keyword. str_in keyword (lower ''DELETE FROM t WHERE id = {}'')) sql_keywords"
    by code_simp
  have line: "getitem (source_lines ?start) (1 - 1) = Inr delete_line"
    by (simp add: SecurityAnalyzer_init_def getitem_def)
  have marker: "str_in ''.format('' delete_line"
    by code_simp
  have trimmed: "strip delete_line = delete_line"
    by code_simp
  from sql_string_finding [of never_matching "''DELETE FROM t WHERE id = {}''" 1 ?start] range
  obtain final where run: "visit_Str never_matching ''DELETE FROM t WHERE id = {}'' 1 ?start = Inr final"
    by blast
  have "credentials_loop never_matching (lower ''DELETE FROM t WHERE id = {}'') 1 ?start = Inr ?start"
    by (simp add: never_matching_def numeral_eq_Suc)
  then have "visit_Str never_matching ''DELETE FROM t WHERE id = {}'' 1 ?start
               = sql_string_check (lower ''DELETE FROM t WHERE id = {}'') 1 ?start"
    by (simp add: visit_Str_def and_then_def)
  also have "\<dots> = Inr (?start\<lparr>issues := issues ?start @ [?issue]\<rparr>)"
    using verb line marker trimmed add_issue_in_range [of 1 ?start] range
    by (simp add: sql_string_check_def and_then_def SecurityAnalyzer_init_def)
  finally have "visit_Str never_matching ''DELETE FROM t WHERE id = {}'' 1 ?start
                  = Inr \<lparr> issues = [?issue], source_lines = [delete_line], imports_set = {} \<rparr>"
    by (simp add: SecurityAnalyzer_init_def)
  with range verb line marker run show ?thesis by blast
qed

text \<open>
  Claim C4 as stated fails at the literal \<open>unselect %s\<close>: the verb is only the end of a longer
  word there, and the second check of \<open>visit_Str\<close>, given the lowercased literal on its
  line, still adds the Medium issue \<open>sql_injection_string\<close>.
\<close>

theorem unselect_is_reported:
  "lower ''unselect %s'' = ''unselect %s''
   \<and> sql_string_check ''unselect %s'' 1 (SecurityAnalyzer_init [unselect_line])
     = Inr \<lparr> issues = [\<lparr> rule_id = ''sql_injection_string'', severity = MEDIUM,
                          description = ''SQL string with potential injection vulnerability'',
                          line_number = 1, code_snippet = unselect_line,
                          recommendation = ''Use parameterized queries for SQL operations'' \<rparr>],
             source_lines = [unselect_line], imports_set = {} \<rparr>"
proof -
  have lowered: "lower ''unselect %s'' = ''unselect %s''"
    by code_simp
  have verb: "list_ex (\<lambda>keyword. str_in keyword ''unselect %s'') sql_keywords"
    by code_simp
  have marker: "str_in ''%s'' ''unselect %s''"
    by code_simp
  have trimmed: "strip unselect_line = unselect_line"
    by code_simp
  have "sql_string_check ''unselect %s'' 1 (SecurityAnalyzer_init [unselect_line])
     = Inr \<lparr> issues = [\<lparr> rule_id = ''sql_injection_string'', severity = MEDIUM,
                          description = ''SQL string with potential injection vulnerability'',
                          line_number = 1, code_snippet = unselect_line,
                          recommendation = ''Use parameterized queries for SQL operations'' \<rparr>],
             source_lines = [unselect_line], imports_set = {} \<rparr>"
    using verb marker trimmed
      add_issue_in_range [of 1 "SecurityAnalyzer_init [unselect_line]"]
    by (simp add: sql_string_check_def and_then_def SecurityAnalyzer_init_def)
  with lowered show ?thesis by blast
qed

subsection \<open>Imports\<close>

text \<open>No step of the visitor other than the loop of \<open>visit_Import\<close> adds an issue whose rule
  id starts with \<open>dangerous_import_\<close>.\<close>

lemma issues_add_issue:
  assumes "add_issue rid sev descr lineno recomm self = Inr self'"
  shows "filter is_import_finding (issues self')
           = filter is_import_finding (issues self)
             @ (if startswith rid ''dangerous_import_''
                then drop (length (issues self)) (issues self') else [])"
  using add_issue_appends [OF assms] by (auto simp: is_import_finding_def)

lemma visit_Import_harmless:
  assumes "\<not> list_ex (\<lambda>name. map_of dangerous_imports name \<noteq> None) names"
  shows "visit_Import names lineno self
           = Inr (self\<lparr>imports_set := imports_set self \<union> set names\<rparr>)"
  using assms by (induction names arbitrary: self) (auto simp: Let_def)

lemma sql_args_loop_findings:
  "sql_args_loop args lineno self = Inr self'
     \<Longrightarrow> filter is_import_finding (issues self') = filter is_import_finding (issues self)"
proof (induction args arbitrary: self)
  case Nil
  then show ?case by simp
next
  case (Cons arg rest)
  show ?case
  proof (cases "is_concat_or_format arg")
    case True
    with Cons.prems obtain mid where
      mid: "add_issue ''potential_sql_injection'' HIGH
              ''Potential SQL injection via string concatenation'' lineno
              ''Use parameterized queries instead of string concatenation'' self = Inr mid"
      and rest: "sql_args_loop rest lineno mid = Inr self'"
      by (auto simp: and_then_def split: sum.splits)
    from issues_add_issue [OF mid] Cons.IH [OF rest] show ?thesis
      by (simp add: startswith_def)
  next
    case False
    with Cons show ?thesis by simp
  qed
qed

lemma visit_Call_findings:
  assumes "visit_Call func args lineno self = Inr self'"
  shows "filter is_import_finding (issues self') = filter is_import_finding (issues self)"
  using assms
  by (auto simp: visit_Call_def startswith_def
           dest!: issues_add_issue sql_args_loop_findings
           split: node.splits if_splits)

lemma credentials_loop_findings:
  "credentials_loop patterns val lineno self = Inr self'
     \<Longrightarrow> filter is_import_finding (issues self') = filter is_import_finding (issues self)"
  by (induction patterns)
     (auto simp: startswith_def dest!: issues_add_issue split: if_splits)

lemma sql_string_check_findings:
  "sql_string_check val lineno self = Inr self'
     \<Longrightarrow> filter is_import_finding (issues self') = filter is_import_finding (issues self)"
  by (auto simp: sql_string_check_def and_then_def startswith_def
           dest!: issues_add_issue split: if_splits sum.splits)

lemma visit_Str_findings:
  "visit_Str patterns s lineno self = Inr self'
     \<Longrightarrow> filter is_import_finding (issues self') = filter is_import_finding (issues self)"
  by (auto simp: visit_Str_def and_then_def Let_def
           dest!: credentials_loop_findings sql_string_check_findings split: sum.splits)

lemma security_visit_import_findings:
  "security_visit ps n self = Inr self' \<Longrightarrow> \<not> dangerous_Import n
     \<Longrightarrow> filter is_import_finding (issues self') = filter is_import_finding (issues self)"
  "security_visit_all ps ns self = Inr self' \<Longrightarrow> \<not> list_ex dangerous_Import ns
     \<Longrightarrow> filter is_import_finding (issues self') = filter is_import_finding (issues self)"
proof (induction ps n self and ps ns self arbitrary: self' and self'
       rule: security_visit_security_visit_all.induct)
  case (1 ps names lineno self)
  then show ?case by (auto simp: visit_Import_harmless)
next
  case (2 ps func args kws lineno self)
  then show ?case
    by (auto split: sum.splits dest!: visit_Call_findings)
next
  case (3 ps s lineno self)
  then show ?case by (auto dest!: visit_Str_findings)
qed (auto split: sum.splits)

text \<open>
  Claim C10: the security analysis of a file emits no dangerous-import issue when the only
  reference to a dangerous module is a from-import. In the repository as it is, the
  analysis of any file raises when the module is compiled and emits no issue at all. In
  the text of the visitor, for any credential patterns, a from-import is visited without
  any effect, and the traversal of a tree that has no plain \<open>import\<close> of a dangerous module,
  whatever it imports with \<open>from\<close>, ends without a dangerous-import issue.
\<close>

theorem from_import_not_flagged:
  "analyze_file_security patterns parse content = Inl SyntaxError
   \<and> security_visit patterns (ImportFrom modname names lineno) self = Inr self
   \<and> (\<not> dangerous_Import tree
        \<and> security_visit patterns tree (SecurityAnalyzer_init lines) = Inr analyzer
        \<longrightarrow> filter is_import_finding (issues analyzer) = [])"
proof (intro conjI impI)
  show "analyze_file_security patterns parse content = Inl SyntaxError"
    by (simp add: security_analyzer_raises)
  show "security_visit patterns (ImportFrom modname names lineno) self = Inr self"
    by simp
next
  assume "\<not> dangerous_Import tree
            \<and> security_visit patterns tree (SecurityAnalyzer_init lines) = Inr analyzer"
  then have "filter is_import_finding (issues analyzer)
               = filter is_import_finding (issues (SecurityAnalyzer_init lines))"
    using security_visit_import_findings(1) by blast
  then show "filter is_import_finding (issues analyzer) = []"
    by (simp add: SecurityAnalyzer_init_def)
qed

text \<open>The file that imports \<open>loads\<close> from \<open>pickle\<close>, traversed with patterns that match
  nothing: its one issue is the call of \<open>eval\<close>.\<close>

theorem from_import_not_flagged_witness:
  "\<not> dangerous_Import from_import_tree
   \<and> security_visit never_matching from_import_tree
         (SecurityAnalyzer_init (split (CHR 0x0A) from_import_source))
       = Inr \<lparr> issues = [eval_issue 2 ''loads(eval(x))''],
               source_lines = split (CHR 0x0A) from_import_source,
               imports_set = {} \<rparr>
   \<and> filter is_import_finding [eval_issue 2 ''loads(eval(x))''] = []"
proof -
  let ?final = "\<lparr> issues = [eval_issue 2 ''loads(eval(x))''],
                  source_lines = split (CHR 0x0A) from_import_source,
                  imports_set = {} \<rparr>"
  have plain: "\<not> dangerous_Import from_import_tree"
    by code_simp
  have lines: "split (CHR 0x0A) from_import_source
                 = [''from pickle import loads'', ''loads(eval(x))'', []]"
    by code_simp
  have trimmed: "strip ''loads(eval(x))'' = ''loads(eval(x))''"
    by code_simp
  have run: "security_visit never_matching from_import_tree
               (SecurityAnalyzer_init (split (CHR 0x0A) from_import_source)) = Inr ?final"
    unfolding lines
    using trimmed
      add_issue_in_range [of 2 "SecurityAnalyzer_init
                                  [''from pickle import loads'', ''loads(eval(x))'', []]"]
    by (simp add: from_import_tree_def visit_Call_def SecurityAnalyzer_init_def eval_issue_def)
  from from_import_not_flagged [of never_matching parse_fails from_import_source
         "''pickle''" "[''loads'']" 1 ?final from_import_tree
         "split (CHR 0x0A) from_import_source" ?final] plain run
  have "filter is_import_finding (issues ?final) = []"
    by blast
  with plain run show ?thesis by simp
qed

subsection \<open>The order of the report\<close>

lemma map_of_add_to_group:
  "map_of (add_to_group groups issue) sev
     = (if sev = severity issue
        then Some ((case map_of groups sev of None \<Rightarrow> [] | Some g \<Rightarrow> g) @ [issue])
        else map_of groups sev)"
proof -
  have upd: "map_of (map (\<lambda>(k, members). if k = severity issue then (k, members @ [issue])
                                 else (k, members)) gs) sev
        = (if sev = severity issue then map_option (\<lambda>g. g @ [issue]) (map_of gs sev)
           else map_of gs sev)" for gs
    by (induction gs) auto
  show ?thesis
    by (cases "map_of groups (severity issue)") (auto simp: add_to_group_def upd map_add_def split: option.splits)
qed

lemma map_of_severity_groups:
  "map_of (severity_groups issue_list) sev
     = (if tier issue_list sev = [] then None else Some (tier issue_list sev))"
proof (induction issue_list rule: rev_induct)
  case Nil
  show ?case by (simp add: severity_groups_def tier_def)
next
  case (snoc issue issue_list)
  have "severity_groups (issue_list @ [issue]) = add_to_group (severity_groups issue_list) issue"
    by (simp add: severity_groups_def)
  with snoc show ?case
    by (auto simp: map_of_add_to_group tier_def)
qed

text \<open>
  Claim C3, as the text of \<open>generate_security_report\<close> has it: the report lists the issues
  by severity, all Critical, then all High, then all Medium, then all Low, and within one
  severity in the order in which the list it was given has them, which is the order of the
  traversal that found them. The text of the report is the heading, the four parts in that
  order, each written from the issues of its severity alone, and the summary.
\<close>

theorem report_order:
  "reported_issues issue_list
     = tier issue_list CRITICAL @ tier issue_list HIGH
       @ tier issue_list MEDIUM @ tier issue_list LOW
   \<and> generate_security_report issue_list
     = (if issue_list = [] then ''No security issues found.''
        else ''Security Analysis Report'' @ nl @ replicate 25 (CHR ''='') @ nl @ nl
             @ tier_section issue_list CRITICAL @ tier_section issue_list HIGH
             @ tier_section issue_list MEDIUM @ tier_section issue_list LOW
             @ nl @ nl @ ''Summary:'' @ nl
             @ ''Total Issues: '' @ str_int (int (length issue_list)) @ nl
             @ concat (map summary_line (severity_groups issue_list)))"
  by (simp add: reported_issues_def generate_security_report_def write_groups_def
        map_of_severity_groups tier_section_def Let_def)

text \<open>The traversal of \<open>starred_tree\<close>, for any credential patterns, finds the call on line
  2 before the call on line 1.\<close>

lemma starred_traversal_order:
  "security_visit patterns starred_tree (SecurityAnalyzer_init (split (CHR 0x0A) starred_source))
     = Inr \<lparr> issues = [eval_issue 2 ''*eval(b))'', eval_issue 1 ''f(k=eval(a),''],
             source_lines = split (CHR 0x0A) starred_source, imports_set = {} \<rparr>"
proof -
  have lines: "split (CHR 0x0A) starred_source = [''f(k=eval(a),'', ''  *eval(b))'', []]"
    by code_simp
  have trimmed: "strip ''  *eval(b))'' = ''*eval(b))''" "strip ''f(k=eval(a),'' = ''f(k=eval(a),''"
    by code_simp+
  show ?thesis
    unfolding lines
    using trimmed
    by (simp add: starred_tree_def visit_Call_def SecurityAnalyzer_init_def eval_issue_def
          add_issue_def getitem_def and_then_def)
qed

text \<open>
  Claim C3 as stated fails at the two Critical issues of that traversal, in the order in
  which it finds them: the report writes the issue of line 2 before the issue of line 1.
\<close>

theorem report_order_not_by_line:
  "map line_number
       (reported_issues [eval_issue 2 ''*eval(b))'', eval_issue 1 ''f(k=eval(a),''])
     = [2, 1]
   \<and> generate_security_report [eval_issue 2 ''*eval(b))'', eval_issue 1 ''f(k=eval(a),'']
     = ''Security Analysis Report'' @ nl @ replicate 25 (CHR ''='') @ nl @ nl
       @ group_heading CRITICAL
       @ issue_entry (eval_issue 2 ''*eval(b))'')
       @ issue_entry (eval_issue 1 ''f(k=eval(a),'')
       @ nl @ nl @ ''Summary:'' @ nl @ ''Total Issues: 2'' @ nl @ ''Critical: 2'' @ nl"
  by code_simp

subsection \<open>Parse failures\<close>

text \<open>
  Claim C8, at a file that does not parse: the complexity analysis returns the metrics
  record with every field 0, as the claim says. The security analysis does not return the
  empty list: the call raises \<open>SyntaxError\<close> when the module is compiled, before the file
  is looked at.
\<close>

theorem parse_failure_results:
  "analyze_file_complexity parse_fails content
     = \<lparr> cyclomatic_complexity = 0, cognitive_complexity = 0, halstead_volume = 0,
         maintainability_index = 0, lines_of_code = 0, num_functions = 0, num_classes = 0 \<rparr>
   \<and> analyze_file_security patterns parse_fails content = Inl SyntaxError
   \<and> analyze_file_security_body patterns parse_fails content = Inr []"
  by (simp add: analyze_file_complexity_def analyze_file_security_body_def zero_metrics_def
        parse_fails_def security_analyzer_raises)

end
